theory Spec2Isabelle
  imports Main "HOL-Library.AList"
begin

section \<open>Strings\<close>

text \<open>
  JavaScript strings are modelled as \<open>string\<close>; a \<open>char\<close> stands for the code point
  of the same number, U+0000 to U+00FF. On this range \<open>String.prototype.trim\<close> removes
  TAB, LF, VT, FF, CR, SPACE and NO-BREAK SPACE, and \<open>toLowerCase\<close> moves
  \<open>A\<close>..\<open>Z\<close> and U+00C0..U+00DE (without the multiplication sign U+00D7) up by 32.
\<close>

definition isWhiteSpace :: "char \<Rightarrow> bool" where
  "isWhiteSpace c = (of_char c \<in> {9::nat, 10, 11, 12, 13, 32, 160})"

definition isUpper :: "char \<Rightarrow> bool" where
  "isUpper c = (let n = (of_char c :: nat)
                in (65 \<le> n \<and> n \<le> 90) \<or> (192 \<le> n \<and> n \<le> 222 \<and> n \<noteq> 215))"

definition lowerChar :: "char \<Rightarrow> char" where
  "lowerChar c = (if isUpper c then char_of ((of_char c :: nat) + 32) else c)"

definition toLowerCase :: "string \<Rightarrow> string" where
  "toLowerCase s = map lowerChar s"

definition trim :: "string \<Rightarrow> string" where
  "trim s = rev (dropWhile isWhiteSpace (rev (dropWhile isWhiteSpace s)))"

text \<open>\<open>s.endsWith(suf)\<close>: the last \<open>length suf\<close> characters of \<open>s\<close> are \<open>suf\<close>.\<close>

definition endsWith :: "string \<Rightarrow> string \<Rightarrow> bool" where
  "endsWith s suf = (length suf \<le> length s \<and> drop (length s - length suf) s = suf)"

text \<open>\<open>s.includes(sub)\<close>: \<open>sub\<close> starts at some position of \<open>s\<close>.\<close>

fun includesStr :: "string \<Rightarrow> string \<Rightarrow> bool" where
  "includesStr [] sub = (sub = [])"
| "includesStr (c # cs) sub = (take (length sub) (c # cs) = sub \<or> includesStr cs sub)"

section \<open>Identity normalizer\<close>

text \<open>
  \<^verbatim>\<open>function getCacheKey(url) { return `cache:url:${url.trim().toLowerCase()}`; }\<close>
  The normalisation proper is the expression inside the template; the key is that string
  in the \<open>cache:url:\<close> namespace of the Redis instance.
\<close>

definition normalize_url :: "string \<Rightarrow> string" where
  "normalize_url url = toLowerCase (trim url)"

definition getCacheKey :: "string \<Rightarrow> string" where
  "getCacheKey url = ''cache:url:'' @ normalize_url url"

section \<open>Data model\<close>

text \<open>\<open>job.data\<close>, as \<open>downloadQueue.add({url, jobId})\<close> stores it.\<close>

record job_data =
  url :: string
  jobId :: string

text \<open>
  The worker's return value \<open>{success, fileUrl, fileName, jobId}\<close>. The field
  \<open>jobId\<close> of the result is \<open>res_jobId\<close> here, apart from \<open>jobId\<close> of the job data.
\<close>

record job_result =
  success :: bool
  fileUrl :: string
  fileName :: string
  res_jobId :: string

text \<open>
  The cached value \<open>{...result, cachedAt}\<close>. It goes through \<open>JSON.stringify\<close> and
  \<open>JSON.parse\<close>, which give back the same strings and booleans, so the store holds the
  record itself. \<open>cachedAt\<close> is the clock reading in milliseconds that
  \<open>new Date().toISOString()\<close> renders.
\<close>

record cached = job_result +
  cachedAt :: nat

text \<open>A Redis value with its expiry, set by \<open>SETEX\<close>: absolute time in milliseconds.\<close>

record redis_entry =
  payload :: cached
  expires_at :: nat

text \<open>Entries of \<open>jobResults\<close>: \<open>{status: 'completed', result}\<close> or \<open>{status: 'failed', error}\<close>.\<close>

datatype job_outcome = Completed job_result | Failed string

text \<open>
  A directory as \<open>fs.readdir(dir, {withFileTypes: true})\<close> lists it, in listing order:
  an entry is a directory (\<open>isDirectory()\<close>) with its own entries, or anything else.
\<close>

datatype dirent = File string | Dir string "dirent list"

text \<open>The callbacks handed to \<open>setTimeout\<close>.\<close>

datatype timer_action = DeleteFiles string | DeleteJobResult string

record timer =
  fires_at :: nat
  action :: timer_action

text \<open>Bull's bookkeeping of the queue \<open>music-downloads\<close>, by job state.\<close>

record bull_queue =
  waiting :: "job_data list"
  active :: "job_data list"
  completed :: "job_data list"
  failed :: "job_data list"

text \<open>
  The server's state: the Redis keys written by \<open>redisClient\<close>, the Bull queue, the
  map \<open>jobResults\<close> (a JavaScript \<open>Map\<close>: insertion-ordered, one entry per key), the
  directories \<open>downloads/<jobId>\<close> and the pending timers.
\<close>

record server_state =
  redis :: "string \<rightharpoonup> redis_entry"
  queue :: bull_queue
  jobResults :: "(string \<times> job_outcome) list"
  fs :: "string \<rightharpoonup> dirent list"
  timers :: "timer list"

text \<open>What a request handler sends; the fields that are constants of the branch are left out.\<close>

datatype response =
    Json400 string
  | Json500 string
  | CacheHit string nat job_result string
  | Queued string string
  | Cleared nat nat nat nat nat nat

section \<open>Constants\<close>

definition CACHE_TTL_DAYS :: nat where
  "CACHE_TTL_DAYS = 3"

definition CACHE_TTL_SECONDS :: nat where
  "CACHE_TTL_SECONDS = CACHE_TTL_DAYS * 24 * 60 * 60"

text \<open>\<open>process.env.BASE_URL || 'http://localhost:3000'\<close>: unset and empty are both falsy.\<close>

definition baseUrl :: "string option \<Rightarrow> string" where
  "baseUrl BASE_URL = (case BASE_URL of
       None \<Rightarrow> ''http://localhost:3000''
     | Some b \<Rightarrow> if b = [] then ''http://localhost:3000'' else b)"

section \<open>Redis and timers\<close>

text \<open>\<open>SETEX key seconds value\<close> at time \<open>now\<close>, and \<open>GET\<close>, which no longer sees an expired key.\<close>

definition setex :: "string \<Rightarrow> nat \<Rightarrow> cached \<Rightarrow> nat \<Rightarrow> (string \<rightharpoonup> redis_entry) \<Rightarrow> (string \<rightharpoonup> redis_entry)" where
  "setex key seconds v now store = store(key \<mapsto> \<lparr>payload = v, expires_at = now + seconds * 1000\<rparr>)"

definition redis_get :: "(string \<rightharpoonup> redis_entry) \<Rightarrow> nat \<Rightarrow> string \<Rightarrow> cached option" where
  "redis_get store now key = (case store key of
       None \<Rightarrow> None
     | Some e \<Rightarrow> if now < expires_at e then Some (payload e) else None)"

text \<open>
  Node's \<open>setTimeout(cb, delay)\<close>: a delay below 1 or above 2147483647 milliseconds is
  set to 1.
\<close>

definition timeoutDelay :: "nat \<Rightarrow> nat" where
  "timeoutDelay delayMs = (if delayMs < 1 \<or> 2147483647 < delayMs then 1 else delayMs)"

definition setTimeout :: "timer_action \<Rightarrow> nat \<Rightarrow> nat \<Rightarrow> server_state \<Rightarrow> server_state" where
  "setTimeout cb delayMs now s =
     s\<lparr>timers := timers s @ [\<lparr>fires_at = now + timeoutDelay delayMs, action = cb\<rparr>]\<rparr>"

definition scheduleFileDeletion :: "string \<Rightarrow> nat \<Rightarrow> nat \<Rightarrow> server_state \<Rightarrow> server_state" where
  "scheduleFileDeletion jid delayMs now s = setTimeout (DeleteFiles jid) delayMs now s"

text \<open>
  What a callback does when its timer fires: \<open>fs.rm(outputDir, {recursive: true,
  force: true})\<close>, which is content with a directory that is already gone, or
  \<open>jobResults.delete(jobId)\<close>.
\<close>

definition fire :: "timer_action \<Rightarrow> server_state \<Rightarrow> server_state" where
  "fire cb s = (case cb of
       DeleteFiles jid \<Rightarrow> s\<lparr>fs := (fs s)(jid := None)\<rparr>
     | DeleteJobResult jid \<Rightarrow> s\<lparr>jobResults := AList.delete jid (jobResults s)\<rparr>)"

section \<open>Files\<close>

text \<open>
  \<open>path.join(a, b)\<close> for a directory entry's name \<open>a\<close> (not empty, without \<open>/\<close>, not
  \<open>.\<close> or \<open>..\<close>) and a relative path \<open>b\<close> built the same way: nothing to normalise.
\<close>

definition path_join :: "string \<Rightarrow> string \<Rightarrow> string" where
  "path_join a b = a @ ''/'' @ b"

text \<open>
  \<^verbatim>\<open>
  for (const file of files) {
      if (file.isDirectory()) {
          const subFiles = await findM4aFiles(fullPath);
          m4aFiles.push(...subFiles.map(f => path.join(file.name, f)));
      } else if (file.name.endsWith('.m4a')) {
          m4aFiles.push(file.name);
      }
  }\<close>
\<close>

function findM4aFiles :: "dirent list \<Rightarrow> string list" where
  "findM4aFiles [] = []"
| "findM4aFiles (Dir name sub # files) =
     map (path_join name) (findM4aFiles sub) @ findM4aFiles files"
| "findM4aFiles (File name # files) =
     (if endsWith name ''.m4a'' then [name] else []) @ findM4aFiles files"
  by pat_completeness auto
termination
  by (relation "measure (size_list size)") auto

text \<open>The segments of a relative path, split at \<open>/\<close>.\<close>

fun segments :: "string \<Rightarrow> string list" where
  "segments [] = [[]]"
| "segments (c # cs) =
     (if c = CHR ''/'' then [] # segments cs
      else case segments cs of seg # segs \<Rightarrow> (c # seg) # segs | [] \<Rightarrow> [[c]])"

fun entry_name :: "dirent \<Rightarrow> string" where
  "entry_name (File name) = name"
| "entry_name (Dir name sub) = name"

text \<open>
  \<open>fs.access\<close> on a path below a directory: every segment but the last names a
  directory, the last names any entry.
\<close>

fun accessible :: "dirent list \<Rightarrow> string list \<Rightarrow> bool" where
  "accessible es [] = True"
| "accessible es (seg # segs) =
     (case find (\<lambda>e. entry_name e = seg) es of
        None \<Rightarrow> False
      | Some (File name) \<Rightarrow> segs = []
      | Some (Dir name sub) \<Rightarrow> accessible sub segs)"

text \<open>
  \<^verbatim>\<open>
  async function cacheFilesExist(jobId, fileName) {
      try { await fs.access(path.join(__dirname, 'downloads', jobId, fileName)); return true; }
      catch { return false; }
  }\<close>
\<close>

definition cacheFilesExist :: "(string \<rightharpoonup> dirent list) \<Rightarrow> string \<Rightarrow> string \<Rightarrow> bool" where
  "cacheFilesExist disk jid fname = (case disk jid of
       None \<Rightarrow> False
     | Some es \<Rightarrow> accessible es (segments fname))"

section \<open>The worker\<close>

text \<open>
  What the outside world did during one run of the worker: \<open>fs.mkdir\<close> failed; or the
  \<open>gamdl\<close> command failed (non-zero exit, the 10 minute timeout, or more than 10MB of
  output), or it exited with 0; in both cases with the entries it left in the job's
  directory.
\<close>

datatype producer_run =
    MkdirFailed string
  | ExecFailed string "dirent list"
  | ExecOk "dirent list"

text \<open>
  The function given to \<open>downloadQueue.process\<close>. It returns the result, or the message
  of the error it throws (\<open>Inl\<close>).
\<close>

definition worker :: "string option \<Rightarrow> producer_run \<Rightarrow> job_data \<Rightarrow> server_state
    \<Rightarrow> (string + job_result) \<times> server_state" where
  "worker BASE_URL run job s = (case run of
       MkdirFailed msg \<Rightarrow> (Inl msg, s)
     | ExecFailed msg deposited \<Rightarrow> (Inl msg, s\<lparr>fs := (fs s)(jobId job \<mapsto> deposited)\<rparr>)
     | ExecOk deposited \<Rightarrow>
         (let s' = s\<lparr>fs := (fs s)(jobId job \<mapsto> deposited)\<rparr>;
              files = findM4aFiles deposited
          in case files of
               [] \<Rightarrow> (Inl ''No M4A file found after download'', s')
             | fname # rest \<Rightarrow>
                 (Inr \<lparr>success = True,
                       fileUrl = baseUrl BASE_URL @ ''/downloads/'' @ jobId job @ ''/'' @ fname,
                       fileName = fname,
                       res_jobId = jobId job\<rparr>, s')))"

section \<open>Queue events\<close>

text \<open>
  \<open>downloadQueue.on('completed', ...)\<close>. \<open>redis_error\<close> is the error \<open>redisClient.setex\<close>
  throws when Redis cannot be reached; the handler catches and logs it, which skips the
  scheduling of the deletion too. The handler runs at the clock reading \<open>now\<close>.
\<close>

definition on_completed :: "string option \<Rightarrow> nat \<Rightarrow> job_data \<Rightarrow> job_result \<Rightarrow> server_state \<Rightarrow> server_state" where
  "on_completed redis_error now job result s =
     (let s1 = s\<lparr>jobResults := AList.update (jobId job) (Completed result) (jobResults s)\<rparr>;
          s2 = (case redis_error of
                  Some msg \<Rightarrow> s1
                | None \<Rightarrow>
                    (let cacheKey = getCacheKey (url job);
                         v = \<lparr>success = success result, fileUrl = fileUrl result,
                              fileName = fileName result, res_jobId = res_jobId result,
                              cachedAt = now\<rparr>
                     in scheduleFileDeletion (jobId job) (CACHE_TTL_SECONDS * 1000) now
                          (s1\<lparr>redis := setex cacheKey CACHE_TTL_SECONDS v now (redis s1)\<rparr>)))
      in setTimeout (DeleteJobResult (jobId job)) 3600000 now s2)"

text \<open>\<open>downloadQueue.on('failed', ...)\<close>.\<close>

definition on_failed :: "nat \<Rightarrow> job_data \<Rightarrow> string \<Rightarrow> server_state \<Rightarrow> server_state" where
  "on_failed now job err s =
     setTimeout (DeleteJobResult (jobId job)) 3600000 now
       (s\<lparr>jobResults := AList.update (jobId job) (Failed err) (jobResults s)\<rparr>)"

text \<open>
  One job through Bull, which the repository drives only through \<open>process\<close> and \<open>on\<close>:
  the job goes from waiting to active, the worker runs, and the job goes to completed
  with the \<open>completed\<close> event when the worker returned, to failed with the \<open>failed\<close>
  event when it threw (jobs are added without \<open>attempts\<close>, so nothing is retried).
\<close>

definition move_active :: "job_data \<Rightarrow> bull_queue \<Rightarrow> bull_queue" where
  "move_active job q = q\<lparr>waiting := remove1 job (waiting q), active := active q @ [job]\<rparr>"

definition move_completed :: "job_data \<Rightarrow> bull_queue \<Rightarrow> bull_queue" where
  "move_completed job q = q\<lparr>active := remove1 job (active q), completed := completed q @ [job]\<rparr>"

definition move_failed :: "job_data \<Rightarrow> bull_queue \<Rightarrow> bull_queue" where
  "move_failed job q = q\<lparr>active := remove1 job (active q), failed := failed q @ [job]\<rparr>"

definition run_job :: "string option \<Rightarrow> string option \<Rightarrow> nat \<Rightarrow> producer_run \<Rightarrow> job_data
    \<Rightarrow> server_state \<Rightarrow> server_state" where
  "run_job BASE_URL redis_error now run job s =
     (case worker BASE_URL run job (s\<lparr>queue := move_active job (queue s)\<rparr>) of
        (Inr result, s') \<Rightarrow>
          on_completed redis_error now job result (s'\<lparr>queue := move_completed job (queue s')\<rparr>)
      | (Inl err, s') \<Rightarrow>
          on_failed now job err (s'\<lparr>queue := move_failed job (queue s')\<rparr>))"

section \<open>Request handlers\<close>

text \<open>
  \<open>req.body.url\<close>: \<open>express.json()\<close> hands the handler whatever JSON value the
  request carries under \<open>url\<close>, or \<open>undefined\<close> when the member is missing. Of a
  number the handler only tests whether it is zero; numbers are integers here.
\<close>

datatype js_value =
    Undefined
  | JNull
  | JBool bool
  | JNumber int
  | JString string
  | JArray "js_value list"
  | JObject "(string \<times> js_value) list"

text \<open>\<open>!url\<close> is \<open>\<not> truthy url\<close>.\<close>

fun truthy :: "js_value \<Rightarrow> bool" where
  "truthy Undefined = False"
| "truthy JNull = False"
| "truthy (JBool b) = b"
| "truthy (JNumber n) = (n \<noteq> 0)"
| "truthy (JString str) = (str \<noteq> [])"
| "truthy (JArray xs) = True"
| "truthy (JObject kvs) = True"

text \<open>
  \<open>url.includes(sub)\<close>, with the message of the \<open>TypeError\<close> it throws (\<open>Inl\<close>). A
  string has \<open>String.prototype.includes\<close>; an array has \<open>Array.prototype.includes\<close>,
  which looks for an element equal to \<open>sub\<close>; a number, a boolean and an object parsed
  from JSON have no function \<open>includes\<close>; \<open>undefined\<close> and \<open>null\<close> have no properties.
\<close>

fun js_includes :: "js_value \<Rightarrow> string \<Rightarrow> string + bool" where
  "js_includes (JString str) sub = Inr (includesStr str sub)"
| "js_includes (JArray xs) sub = Inr (JString sub \<in> set xs)"
| "js_includes Undefined sub =
     Inl (''Cannot read properties of undefined (reading '' @ [CHR 0x27] @ ''includes'' @ [CHR 0x27] @ '')'')"
| "js_includes JNull sub =
     Inl (''Cannot read properties of null (reading '' @ [CHR 0x27] @ ''includes'' @ [CHR 0x27] @ '')'')"
| "js_includes v sub = Inl ''url.includes is not a function''"

text \<open>
  \<open>POST /api/download\<close>. \<open>body_url\<close> is \<open>req.body.url\<close>; \<open>uuid\<close> is what
  \<open>uuidv4()\<close> returns when it is called; \<open>backend_error\<close> is the error the first call
  to Redis throws when the backend cannot be reached. Every error thrown in the
  handler is caught and answered with status 500 and the error's message: that of
  \<open>url.includes\<close>, that of \<open>url.trim\<close> inside \<open>getCacheKey\<close> when \<open>url\<close> is not a
  string, and that of the backend.
\<close>

definition enqueue :: "string \<Rightarrow> string \<Rightarrow> server_state \<Rightarrow> response \<times> server_state" where
  "enqueue uuid u s =
     (Queued uuid (''/api/status/'' @ uuid),
      s\<lparr>queue := (queue s)\<lparr>waiting := waiting (queue s) @ [\<lparr>url = u, jobId = uuid\<rparr>]\<rparr>\<rparr>)"

definition download_post :: "string option \<Rightarrow> nat \<Rightarrow> string \<Rightarrow> js_value \<Rightarrow> server_state
    \<Rightarrow> response \<times> server_state" where
  "download_post backend_error now uuid body_url s =
     (if \<not> truthy body_url then (Json400 ''URL is required'', s)
      else case js_includes body_url ''music.apple.com'' of
        Inl msg \<Rightarrow> (Json500 msg, s)
      | Inr found \<Rightarrow>
         if \<not> found then (Json400 ''Invalid Apple Music URL'', s)
         else (case body_url of
           JString u \<Rightarrow>
            (let cacheKey = getCacheKey u in
             case backend_error of
               Some msg \<Rightarrow> (Json500 msg, s)
             | None \<Rightarrow>
                (case redis_get (redis s) now cacheKey of
                   Some c \<Rightarrow>
                     if cacheFilesExist (fs s) (res_jobId c) (fileName c)
                     then (CacheHit (res_jobId c) (cachedAt c)
                             \<lparr>success = success c, fileUrl = fileUrl c,
                              fileName = fileName c, res_jobId = res_jobId c\<rparr>
                             (''/api/status/'' @ res_jobId c), s)
                     else enqueue uuid u (s\<lparr>redis := (redis s)(cacheKey := None)\<rparr>)
                 | None \<Rightarrow> enqueue uuid u s))
         | other \<Rightarrow> (Json500 ''url.trim is not a function'', s)))"

text \<open>\<open>GET /api/queue/stats\<close>: waiting, active, completed, failed, total.\<close>

definition queue_stats :: "server_state \<Rightarrow> nat \<times> nat \<times> nat \<times> nat \<times> nat" where
  "queue_stats s =
     (let w = length (waiting (queue s)); a = length (active (queue s));
          c = length (completed (queue s)); f = length (failed (queue s))
      in (w, a, c, f, w + a + c + f))"

text \<open>
  \<open>POST /api/queue/clear\<close>: the counts are read, \<open>pkill -9 -f gamdl\<close> is run for
  every active job (it changes nothing of this state), \<open>obliterate({force: true})\<close>
  removes every job of the queue, and \<open>jobResults.clear()\<close> empties the map.
\<close>

definition queue_clear :: "server_state \<Rightarrow> response \<times> server_state" where
  "queue_clear s =
     (case queue_stats s of (w, a, c, f, tot) \<Rightarrow>
        (Cleared w a c f (length (jobResults s)) tot,
         s\<lparr>queue := \<lparr>waiting = [], active = [], completed = [], failed = []\<rparr>,
           jobResults := []\<rparr>))"

section \<open>Notions of the specification\<close>

text \<open>
  The produced paths a cache record names. The completion handler stores the worker's
  result, which carries one path, \<open>fileName\<close>; the record's list of produced files is
  that path alone.
\<close>

definition producedFiles :: "cached \<Rightarrow> string list" where
  "producedFiles c = [fileName c]"

text \<open>
  A record is valid when every path of \<open>producedFiles\<close>, resolved under the directory
  of the record's job, exists on disk.
\<close>

definition valid_record :: "(string \<rightharpoonup> dirent list) \<Rightarrow> cached \<Rightarrow> bool" where
  "valid_record disk c = list_all (cacheFilesExist disk (res_jobId c)) (producedFiles c)"

text \<open>
  Every file below a directory, as a path relative to it, in listing order: the
  enumeration \<open>findM4aFiles\<close> is compared with.
\<close>

function allFiles :: "dirent list \<Rightarrow> string list" where
  "allFiles [] = []"
| "allFiles (Dir name sub # files) = map (path_join name) (allFiles sub) @ allFiles files"
| "allFiles (File name # files) = name # allFiles files"
  by pat_completeness auto
termination
  by (relation "measure (size_list size)") auto

section \<open>A concrete run\<close>

definition ex_url :: string where
  "ex_url = ''https://music.apple.com/us/album/1''"

definition ex_job :: job_data where
  "ex_job = \<lparr>url = ex_url, jobId = ''job-1''\<rparr>"

definition ex_tree :: "dirent list" where
  "ex_tree = [File ''cover.jpg'',
              Dir ''Artist'' [File ''lyrics.lrc'', File ''01 Song.m4a'', File ''02 Song.m4a'']]"

definition ex_result :: job_result where
  "ex_result = \<lparr>success = True,
       fileUrl = ''http://localhost:3000/downloads/job-1/Artist/01 Song.m4a'',
       fileName = ''Artist/01 Song.m4a'', res_jobId = ''job-1''\<rparr>"

definition ex_cached :: cached where
  "ex_cached = \<lparr>success = True,
       fileUrl = ''http://localhost:3000/downloads/job-1/Artist/01 Song.m4a'',
       fileName = ''Artist/01 Song.m4a'', res_jobId = ''job-1'', cachedAt = 0\<rparr>"

text \<open>What a run leaves when it writes no \<open>.m4a\<close> file.\<close>

definition ex_other :: "dirent list" where
  "ex_other = [File ''cover.jpg'', Dir ''Artist'' [File ''lyrics.lrc'', File ''song.mp4'']]"

text \<open>The job is waiting; nothing is cached and nothing is on disk.\<close>

definition ex_start :: server_state where
  "ex_start = \<lparr>redis = Map.empty,
      queue = \<lparr>waiting = [ex_job], active = [], completed = [], failed = []\<rparr>,
      jobResults = [], fs = Map.empty, timers = []\<rparr>"

text \<open>The job has run at time 0 and the producer left \<open>ex_tree\<close>.\<close>

definition ex_done :: server_state where
  "ex_done = run_job None None 0 (ExecOk ex_tree) ex_job ex_start"

text \<open>Afterwards the job's directory was deleted by hand.\<close>

definition ex_stale :: server_state where
  "ex_stale = ex_done\<lparr>fs := (fs ex_done)(''job-1'' := None)\<rparr>"

section \<open>Facts about the string functions\<close>

lemma lowerChar_not_upper: "\<not> isUpper (lowerChar c)"
proof (cases "isUpper c")
  case True
  then have b: "(of_char c :: nat) + 32 < 256"
    by (auto simp: isUpper_def Let_def)
  have "(of_char (char_of ((of_char c :: nat) + 32)) :: nat) = of_char c + 32"
    using b by simp
  with True show ?thesis
    by (auto simp: lowerChar_def isUpper_def Let_def)
next
  case False
  then show ?thesis by (simp add: lowerChar_def)
qed

lemma lowerChar_idem: "lowerChar (lowerChar c) = lowerChar c"
  using lowerChar_not_upper [of c] by (simp add: lowerChar_def [of "lowerChar c"])

lemma isWhiteSpace_lowerChar: "isWhiteSpace (lowerChar c) = isWhiteSpace c"
proof (cases "isUpper c")
  case True
  then have b: "(of_char c :: nat) + 32 < 256"
    by (auto simp: isUpper_def Let_def)
  have "(of_char (char_of ((of_char c :: nat) + 32)) :: nat) = of_char c + 32"
    using b by simp
  with True show ?thesis
    by (auto simp: lowerChar_def isUpper_def isWhiteSpace_def Let_def)
next
  case False
  then show ?thesis by (simp add: lowerChar_def)
qed

lemma toLowerCase_idem: "toLowerCase (toLowerCase s) = toLowerCase s"
  by (simp add: toLowerCase_def lowerChar_idem)

lemma dropWhile_ws_lower:
  "dropWhile isWhiteSpace (map lowerChar s) = map lowerChar (dropWhile isWhiteSpace s)"
  by (induction s) (simp_all add: isWhiteSpace_lowerChar)

lemma trim_toLowerCase: "trim (toLowerCase s) = toLowerCase (trim s)"
  by (simp add: trim_def toLowerCase_def dropWhile_ws_lower rev_map)

lemma dropWhile_idem: "dropWhile P (dropWhile P xs) = dropWhile P xs"
  by (induction xs) simp_all

lemma strip_end_Cons:
  "rev (dropWhile P (rev (y # ys))) =
     (if rev (dropWhile P (rev ys)) = [] \<and> P y then [] else y # rev (dropWhile P (rev ys)))"
  by (auto simp: dropWhile_append dropWhile_eq_Nil_conv)

lemma dropWhile_strip_end:
  "dropWhile P (rev (dropWhile P (rev (dropWhile P xs)))) = rev (dropWhile P (rev (dropWhile P xs)))"
proof (cases "dropWhile P xs")
  case Nil
  show ?thesis unfolding Nil by simp
next
  case (Cons y ys)
  then have "\<not> P y"
    using hd_dropWhile [of P xs] by auto
  then show ?thesis
    unfolding Cons strip_end_Cons by simp
qed

lemma trim_idem: "trim (trim s) = trim s"
  by (simp add: trim_def dropWhile_strip_end dropWhile_idem)

lemma normalize_idem: "normalize_url (normalize_url s) = normalize_url s"
  by (simp add: normalize_url_def trim_toLowerCase toLowerCase_idem trim_idem)

lemma normalize_trim: "normalize_url (trim s) = normalize_url s"
  by (simp add: normalize_url_def trim_idem)

lemma normalize_toLowerCase: "normalize_url (toLowerCase s) = normalize_url s"
  by (simp add: normalize_url_def trim_toLowerCase toLowerCase_idem)

section \<open>Facts about the handlers\<close>

lemma download_post_valid:
  assumes "u \<noteq> []" and "includesStr u ''music.apple.com''"
  shows "download_post None now uuid (JString u) s =
     (case redis_get (redis s) now (getCacheKey u) of
        Some c \<Rightarrow>
          if cacheFilesExist (fs s) (res_jobId c) (fileName c)
          then (CacheHit (res_jobId c) (cachedAt c)
                  \<lparr>success = success c, fileUrl = fileUrl c,
                   fileName = fileName c, res_jobId = res_jobId c\<rparr>
                  (''/api/status/'' @ res_jobId c), s)
          else enqueue uuid u (s\<lparr>redis := (redis s)(getCacheKey u := None)\<rparr>)
      | None \<Rightarrow> enqueue uuid u s)"
  using assms by (simp add: download_post_def Let_def)

lemma download_post_state:
  "fst (download_post be now uuid body_url s) = Json400 msg
     \<or> fst (download_post be now uuid body_url s) = Json500 msg
   \<Longrightarrow> snd (download_post be now uuid body_url s) = s"
  by (auto simp: download_post_def Let_def enqueue_def
        split: if_splits sum.splits option.splits js_value.splits)

lemma valid_record_iff: "valid_record disk c = cacheFilesExist disk (res_jobId c) (fileName c)"
  by (simp add: valid_record_def producedFiles_def)

lemma redis_get_removed: "redis_get (store(k := None)) now k = None"
  by (simp add: redis_get_def)

lemma same_key_same_submission:
  assumes "getCacheKey a = getCacheKey b"
    and "includesStr a ''music.apple.com''" and "includesStr b ''music.apple.com''"
  shows "fst (download_post be now uuid (JString a) s) = fst (download_post be now uuid (JString b) s)
       \<and> redis (snd (download_post be now uuid (JString a) s))
           = redis (snd (download_post be now uuid (JString b) s))"
proof -
  have ne: "a \<noteq> []" "b \<noteq> []" using assms(2,3) by auto
  show ?thesis
    using assms ne
    by (simp add: download_post_def Let_def enqueue_def split: option.splits)
qed

lemma same_key_same_write:
  assumes "getCacheKey a = getCacheKey b"
  shows "redis (on_completed re now \<lparr>url = a, jobId = j\<rparr> r s)
       = redis (on_completed re now \<lparr>url = b, jobId = j\<rparr> r s)"
  using assms
  by (simp add: on_completed_def Let_def setTimeout_def scheduleFileDeletion_def
        split: option.splits)

lemma worker_failure:
  assumes "run = MkdirFailed err \<or> run = ExecFailed err deposited \<or>
           (run = ExecOk deposited \<and> findM4aFiles deposited = []
              \<and> err = ''No M4A file found after download'')"
  shows "fst (worker B run job s) = Inl err"
  using assms by (auto simp: worker_def)

lemma worker_frame:
  "redis (snd (worker B run job s)) = redis s
   \<and> queue (snd (worker B run job s)) = queue s
   \<and> jobResults (snd (worker B run job s)) = jobResults s
   \<and> timers (snd (worker B run job s)) = timers s"
  by (cases run) (simp_all add: worker_def Let_def split: list.splits)

lemma run_job_failure:
  assumes "fst (worker B run job (s\<lparr>queue := move_active job (queue s)\<rparr>)) = Inl err"
  shows "run_job B re now run job s =
      on_failed now job err
        ((snd (worker B run job (s\<lparr>queue := move_active job (queue s)\<rparr>)))
           \<lparr>queue := move_failed job
              (queue (snd (worker B run job (s\<lparr>queue := move_active job (queue s)\<rparr>))))\<rparr>)"
  using assms
  by (cases "worker B run job (s\<lparr>queue := move_active job (queue s)\<rparr>)") (simp add: run_job_def)

lemma on_failed_effect:
  "redis (on_failed now job err s) = redis s
   \<and> queue (on_failed now job err s) = queue s
   \<and> map_of (jobResults (on_failed now job err s)) (jobId job) = Some (Failed err)"
  by (simp add: on_failed_def setTimeout_def update_conv')

lemma result_surj:
  "\<lparr>success = success r, fileUrl = fileUrl r, fileName = fileName r, res_jobId = res_jobId r\<rparr> = (r::job_result)"
  by (cases r) simp

lemma on_completed_effect:
  "redis (on_completed None t0 job result s) (getCacheKey (url job)) =
      Some \<lparr>payload = \<lparr>success = success result, fileUrl = fileUrl result,
                        fileName = fileName result, res_jobId = res_jobId result,
                        cachedAt = t0\<rparr>,
            expires_at = t0 + CACHE_TTL_SECONDS * 1000\<rparr>
   \<and> map_of (jobResults (on_completed re t0 job result s)) (jobId job) = Some (Completed result)
   \<and> fs (on_completed re t0 job result s) = fs s
   \<and> queue (on_completed re t0 job result s) = queue s"
  by (simp add: on_completed_def Let_def setTimeout_def scheduleFileDeletion_def setex_def
        update_conv' split: option.splits)

section \<open>Facts about the concrete run\<close>

lemma ex_key: "getCacheKey ex_url = ''cache:url:https://music.apple.com/us/album/1''"
  by code_simp

lemma ex_url_valid: "ex_url \<noteq> [] \<and> includesStr ex_url ''music.apple.com''"
  by code_simp

lemma ex_find: "findM4aFiles ex_tree = [''Artist/01 Song.m4a'', ''Artist/02 Song.m4a'']"
  by code_simp

lemma ex_worker:
  "worker None (ExecOk ex_tree) ex_job s = (Inr ex_result, s\<lparr>fs := (fs s)(''job-1'' \<mapsto> ex_tree)\<rparr>)"
  by (simp add: worker_def ex_find baseUrl_def ex_job_def ex_result_def)

lemma ex_done_redis:
  "redis ex_done = [''cache:url:https://music.apple.com/us/album/1'' \<mapsto>
       \<lparr>payload = ex_cached, expires_at = 259200000\<rparr>]"
  by (simp add: ex_done_def run_job_def ex_worker on_completed_def Let_def setTimeout_def
        scheduleFileDeletion_def setex_def ex_start_def CACHE_TTL_SECONDS_def CACHE_TTL_DAYS_def)
     (simp add: ex_job_def ex_key ex_result_def ex_cached_def)

lemma ex_done_fs: "fs ex_done = [''job-1'' \<mapsto> ex_tree]"
  by (simp add: ex_done_def run_job_def ex_worker on_completed_def Let_def setTimeout_def
        scheduleFileDeletion_def ex_start_def)

lemma ex_done_get: "redis_get (redis ex_done) 10 (getCacheKey ex_url) = Some ex_cached"
  by (simp add: ex_done_redis ex_key redis_get_def)

lemma ex_stale_get: "redis_get (redis ex_stale) 10 (getCacheKey ex_url) = Some ex_cached"
  by (simp add: ex_stale_def ex_done_redis ex_key redis_get_def)

lemma ex_done_exist: "cacheFilesExist (fs ex_done) ''job-1'' ''Artist/01 Song.m4a''"
  by (simp add: ex_done_fs cacheFilesExist_def ex_tree_def)

lemma ex_stale_missing: "\<not> cacheFilesExist (fs ex_stale) ''job-1'' ''Artist/01 Song.m4a''"
  by (simp add: ex_stale_def cacheFilesExist_def)

section \<open>Facts about the enumeration of files\<close>

lemma endsWith_iff: "endsWith s suf \<longleftrightarrow> (\<exists>pre. s = pre @ suf)"
proof
  assume "endsWith s suf"
  then have "s = take (length s - length suf) s @ suf"
    by (metis append_take_drop_id endsWith_def)
  then show "\<exists>pre. s = pre @ suf" ..
next
  assume "\<exists>pre. s = pre @ suf"
  then show "endsWith s suf" by (auto simp: endsWith_def)
qed

lemma endsWith_path_join: "endsWith (path_join n p) ''.m4a'' = endsWith p ''.m4a''"
proof
  assume "endsWith p ''.m4a''"
  then obtain pre where "p = pre @ ''.m4a''" by (auto simp: endsWith_iff)
  then have "path_join n p = (n @ ''/'' @ pre) @ ''.m4a''" by (simp add: path_join_def)
  then show "endsWith (path_join n p) ''.m4a''" unfolding endsWith_iff by blast
next
  assume "endsWith (path_join n p) ''.m4a''"
  then obtain pre where "n @ ''/'' @ p = pre @ ''.m4a''"
    unfolding endsWith_iff path_join_def by blast
  then have e: "(n @ ''/'') @ p = pre @ ''.m4a''" by simp
  have "\<exists>us. (n @ ''/'' = pre @ us \<and> us @ p = ''.m4a'') \<or> ((n @ ''/'') @ us = pre \<and> p = us @ ''.m4a'')"
    using e append_eq_append_conv2 [of "n @ ''/''" p pre "''.m4a''"] by blast
  then consider us where "n @ ''/'' = pre @ us" "us @ p = ''.m4a''"
    | us where "p = us @ ''.m4a''"
    by blast
  then show "endsWith p ''.m4a''"
  proof cases
    case 1
    show ?thesis
    proof (cases "us = []")
      case True
      with 1 show ?thesis by (simp add: endsWith_def)
    next
      case False
      then have "last us = last (pre @ us)" by simp
      also have "\<dots> = CHR ''/''" using 1(1) [symmetric] by simp
      finally have "CHR ''/'' \<in> set us" using False last_in_set by metis
      then have "CHR ''/'' \<in> set (us @ p)" by simp
      then show ?thesis unfolding 1(2) by simp
    qed
  next
    case 2
    then show ?thesis unfolding endsWith_iff by blast
  qed
qed

lemma findM4aFiles_filter:
  "findM4aFiles es = filter (\<lambda>p. endsWith p ''.m4a'') (allFiles es)"
  by (induction es rule: findM4aFiles.induct)
     (simp_all add: filter_map comp_def endsWith_path_join)

lemma no_files_no_m4a: "allFiles es = [] \<Longrightarrow> findM4aFiles es = []"
  by (simp add: findM4aFiles_filter)

section \<open>Identity normalizer: the cache key\<close>

text \<open>
  Claim C5. Key normalisation, the trimming and lower-casing that \<open>getCacheKey\<close>
  applies before it prefixes \<open>cache:url:\<close>, is a function of the raw identifier alone
  and is idempotent: normalising twice gives what normalising once gives, and the key
  of a normalised identifier is the key of the raw one. It ignores surrounding whitespace
  and letter case: trimming or lower-casing the input first changes nothing, and
  \<open>" URL "\<close> and \<open>"url"\<close> normalise alike and get the same key. Two raw identifiers
  that normalise alike get the same key, so the completion handler writes the same
  entry for both, and two submissions that pass validation read the same entry and get
  the same answer.
\<close>

theorem key_normalization:
  "normalize_url (normalize_url raw) = normalize_url raw
   \<and> getCacheKey (normalize_url raw) = getCacheKey raw
   \<and> normalize_url (trim raw) = normalize_url raw
   \<and> normalize_url (toLowerCase raw) = normalize_url raw
   \<and> normalize_url '' URL '' = normalize_url ''url''
   \<and> getCacheKey '' URL '' = getCacheKey ''url''
   \<and> (normalize_url a = normalize_url b \<longrightarrow>
        getCacheKey a = getCacheKey b
      \<and> redis (on_completed re now \<lparr>url = a, jobId = j\<rparr> r s)
          = redis (on_completed re now \<lparr>url = b, jobId = j\<rparr> r s)
      \<and> (includesStr a ''music.apple.com'' \<and> includesStr b ''music.apple.com'' \<longrightarrow>
            fst (download_post be now uuid (JString a) s) = fst (download_post be now uuid (JString b) s)
          \<and> redis (snd (download_post be now uuid (JString a) s))
              = redis (snd (download_post be now uuid (JString b) s))))"
proof -
  have ex: "normalize_url '' URL '' = normalize_url ''url''"
    by code_simp
  have same: "getCacheKey a = getCacheKey b" if "normalize_url a = normalize_url b"
    using that by (simp add: getCacheKey_def)
  show ?thesis
    using ex same same_key_same_write [of a b re now j r s]
      same_key_same_submission [of a b be now uuid s]
    by (simp add: normalize_idem normalize_trim normalize_toLowerCase getCacheKey_def)
qed

theorem key_normalization_witness:
  "normalize_url '' https://music.apple.com/US/Album/1 '' = normalize_url ex_url
   \<and> includesStr '' https://music.apple.com/US/Album/1 '' ''music.apple.com''
   \<and> includesStr ex_url ''music.apple.com''
   \<and> getCacheKey '' https://music.apple.com/US/Album/1 '' = getCacheKey ex_url
   \<and> redis (on_completed None 10 \<lparr>url = '' https://music.apple.com/US/Album/1 '', jobId = ''job-1''\<rparr>
               ex_result ex_done)
       = redis (on_completed None 10 \<lparr>url = ex_url, jobId = ''job-1''\<rparr> ex_result ex_done)
   \<and> fst (download_post None 10 ''job-2'' (JString '' https://music.apple.com/US/Album/1 '') ex_done)
       = fst (download_post None 10 ''job-2'' (JString ex_url) ex_done)"
proof -
  have n: "normalize_url '' https://music.apple.com/US/Album/1 '' = normalize_url ex_url"
    by code_simp
  have i: "includesStr '' https://music.apple.com/US/Album/1 '' ''music.apple.com''"
    by code_simp
  have i': "includesStr ex_url ''music.apple.com''"
    using ex_url_valid by simp
  show ?thesis
    using n i i'
      key_normalization [where a = "'' https://music.apple.com/US/Album/1 ''" and b = ex_url
        and re = None and now = 10 and j = "''job-1''" and r = ex_result and s = ex_done
        and be = None and uuid = "''job-2''"]
    by blast
qed

section \<open>Cache store: reads on the submission path\<close>

text \<open>
  Claim C1. On the submission path a cached record is returned only if it is valid,
  that is, if every path of its produced files, resolved under the directory of its
  job, exists on disk. When a backing file is missing the entry is deleted from the
  store and the submission goes on as if the key had no entry: no cached record is
  returned.
\<close>

theorem cache_read_returns_valid_only:
  assumes "u \<noteq> []" and "includesStr u ''music.apple.com''"
    and "redis_get (redis s) now (getCacheKey u) = Some c"
  shows "(valid_record (fs s) c \<longrightarrow>
            download_post None now uuid (JString u) s =
              (CacheHit (res_jobId c) (cachedAt c)
                 \<lparr>success = success c, fileUrl = fileUrl c,
                  fileName = fileName c, res_jobId = res_jobId c\<rparr>
                 (''/api/status/'' @ res_jobId c), s))
       \<and> (\<not> valid_record (fs s) c \<longrightarrow>
            (\<forall>j t r st. fst (download_post None now uuid (JString u) s) \<noteq> CacheHit j t r st)
          \<and> redis (snd (download_post None now uuid (JString u) s)) (getCacheKey u) = None
          \<and> download_post None now uuid (JString u) s =
              download_post None now uuid (JString u) (s\<lparr>redis := (redis s)(getCacheKey u := None)\<rparr>))"
proof (intro conjI impI)
  assume v: "valid_record (fs s) c"
  show "download_post None now uuid (JString u) s =
              (CacheHit (res_jobId c) (cachedAt c)
                 \<lparr>success = success c, fileUrl = fileUrl c,
                  fileName = fileName c, res_jobId = res_jobId c\<rparr>
                 (''/api/status/'' @ res_jobId c), s)"
    using v assms(3) by (simp add: download_post_valid [OF assms(1,2)] valid_record_iff)
next
  assume v: "\<not> valid_record (fs s) c"
  have e: "download_post None now uuid (JString u) s =
      enqueue uuid u (s\<lparr>redis := (redis s)(getCacheKey u := None)\<rparr>)"
    using v assms(3) by (simp add: download_post_valid [OF assms(1,2)] valid_record_iff)
  show "\<forall>j t r st. fst (download_post None now uuid (JString u) s) \<noteq> CacheHit j t r st"
    by (simp add: e enqueue_def)
  show "redis (snd (download_post None now uuid (JString u) s)) (getCacheKey u) = None"
    by (simp add: e enqueue_def)
  show "download_post None now uuid (JString u) s =
      download_post None now uuid (JString u) (s\<lparr>redis := (redis s)(getCacheKey u := None)\<rparr>)"
  proof -
    have "download_post None now uuid (JString u) (s\<lparr>redis := (redis s)(getCacheKey u := None)\<rparr>) =
        enqueue uuid u (s\<lparr>redis := (redis s)(getCacheKey u := None)\<rparr>)"
      by (simp add: download_post_valid [OF assms(1,2)] redis_get_removed)
    with e show ?thesis by simp
  qed
qed

theorem cache_read_returns_valid_only_witness:
  "ex_url \<noteq> [] \<and> includesStr ex_url ''music.apple.com''
   \<and> redis_get (redis ex_done) 10 (getCacheKey ex_url) = Some ex_cached
   \<and> valid_record (fs ex_done) ex_cached
   \<and> fst (download_post None 10 ''job-2'' (JString ex_url) ex_done)
       = CacheHit ''job-1'' 0 ex_result ''/api/status/job-1''
   \<and> redis_get (redis ex_stale) 10 (getCacheKey ex_url) = Some ex_cached
   \<and> \<not> valid_record (fs ex_stale) ex_cached
   \<and> fst (download_post None 10 ''job-2'' (JString ex_url) ex_stale) = Queued ''job-2'' ''/api/status/job-2''
   \<and> redis (snd (download_post None 10 ''job-2'' (JString ex_url) ex_stale)) (getCacheKey ex_url) = None"
proof -
  have u: "ex_url \<noteq> []" "includesStr ex_url ''music.apple.com''"
    using ex_url_valid by simp_all
  have v: "valid_record (fs ex_done) ex_cached"
    using ex_done_exist by (simp add: valid_record_iff ex_cached_def)
  have nv: "\<not> valid_record (fs ex_stale) ex_cached"
    using ex_stale_missing by (simp add: valid_record_iff ex_cached_def)
  have hit: "fst (download_post None 10 ''job-2'' (JString ex_url) ex_done)
       = CacheHit ''job-1'' 0 ex_result ''/api/status/job-1''"
    using cache_read_returns_valid_only [OF u ex_done_get, of "''job-2''"] v
    by (simp add: ex_cached_def ex_result_def)
  have stale: "redis (snd (download_post None 10 ''job-2'' (JString ex_url) ex_stale)) (getCacheKey ex_url) = None"
    using cache_read_returns_valid_only [OF u ex_stale_get, of "''job-2''"] nv by blast
  have q: "fst (download_post None 10 ''job-2'' (JString ex_url) ex_stale) = Queued ''job-2'' ''/api/status/job-2''"
    using nv ex_stale_get by (simp add: download_post_valid [OF u] valid_record_iff enqueue_def)
  show ?thesis using u v nv hit stale q ex_done_get ex_stale_get by simp
qed

text \<open>
  Claim C2. A submission whose key has a cache entry while the backing file is gone
  from disk gets no error: the entry is removed, and the submission is an ordinary
  miss, answered as queued under the identifier \<open>uuidv4()\<close> has just produced, with a
  new job of that identifier appended to the waiting jobs.
\<close>

theorem stale_hit_falls_through:
  assumes "u \<noteq> []" and "includesStr u ''music.apple.com''"
    and "redis_get (redis s) now (getCacheKey u) = Some c"
    and "\<not> cacheFilesExist (fs s) (res_jobId c) (fileName c)"
  shows "download_post None now uuid (JString u) s =
           (Queued uuid (''/api/status/'' @ uuid),
            s\<lparr>redis := (redis s)(getCacheKey u := None),
              queue := (queue s)\<lparr>waiting := waiting (queue s) @ [\<lparr>url = u, jobId = uuid\<rparr>]\<rparr>\<rparr>)"
  using assms(3,4) by (simp add: download_post_valid [OF assms(1,2)] enqueue_def)

theorem stale_hit_falls_through_witness:
  "ex_url \<noteq> [] \<and> includesStr ex_url ''music.apple.com''
   \<and> redis_get (redis ex_stale) 10 (getCacheKey ex_url) = Some ex_cached
   \<and> \<not> cacheFilesExist (fs ex_stale) (res_jobId ex_cached) (fileName ex_cached)
   \<and> download_post None 10 ''job-2'' (JString ex_url) ex_stale =
           (Queued ''job-2'' ''/api/status/job-2'',
            ex_stale\<lparr>redis := (redis ex_stale)(getCacheKey ex_url := None),
              queue := (queue ex_stale)\<lparr>waiting := waiting (queue ex_stale) @ [\<lparr>url = ex_url, jobId = ''job-2''\<rparr>]\<rparr>\<rparr>)"
proof -
  have u: "ex_url \<noteq> []" "includesStr ex_url ''music.apple.com''"
    using ex_url_valid by simp_all
  have m: "\<not> cacheFilesExist (fs ex_stale) (res_jobId ex_cached) (fileName ex_cached)"
    using ex_stale_missing by (simp add: ex_cached_def)
  show ?thesis
    using u m ex_stale_get stale_hit_falls_through [OF u ex_stale_get m, of "''job-2''"]
    by simp
qed

section \<open>Validation of submissions\<close>

text \<open>
  What the two checks of the handler reject: a missing \<open>url\<close>, \<open>null\<close>, \<open>false\<close>,
  \<open>0\<close> and the empty string, and a string, or an array, that does not contain
  \<open>music.apple.com\<close>. These are answered with status 400 and nothing of the state
  changes, whether or not Redis can be reached.
\<close>

lemma rejected_by_validation:
  assumes "\<not> truthy body_url \<or> js_includes body_url ''music.apple.com'' = Inr False"
  shows "(\<exists>msg. download_post backend_error now uuid body_url s = (Json400 msg, s))
       \<and> queue_stats (snd (download_post backend_error now uuid body_url s)) = queue_stats s"
  using assms by (auto simp: download_post_def)

lemma rejected_by_validation_examples:
  "download_post (Some ''ECONNREFUSED'') 10 ''job-2'' (JString ''https://example.com/track'') ex_done
       = (Json400 ''Invalid Apple Music URL'', ex_done)
   \<and> download_post None 10 ''job-2'' (JString []) ex_done = (Json400 ''URL is required'', ex_done)
   \<and> download_post None 10 ''job-2'' Undefined ex_done = (Json400 ''URL is required'', ex_done)
   \<and> download_post None 10 ''job-2'' (JNumber 0) ex_done = (Json400 ''URL is required'', ex_done)"
proof -
  have "\<not> includesStr ''https://example.com/track'' ''music.apple.com''"
    by code_simp
  then show ?thesis by (simp add: download_post_def)
qed

text \<open>
  A value of \<open>url\<close> that is neither a string nor an array, and not one of the falsy
  values, makes \<open>url.includes\<close> throw; an array with the element \<open>music.apple.com\<close>
  passes both checks and makes \<open>url.trim\<close> throw inside \<open>getCacheKey\<close>. Both are
  answered with status 500; nothing of the state changes.
\<close>

lemma non_string_url_throws:
  "(truthy v \<and> (\<forall>u. v \<noteq> JString u) \<and> (\<forall>xs. v \<noteq> JArray xs) \<longrightarrow>
      download_post be now uuid v s = (Json500 ''url.includes is not a function'', s))
   \<and> (JString ''music.apple.com'' \<in> set xs \<longrightarrow>
      download_post be now uuid (JArray xs) s = (Json500 ''url.trim is not a function'', s))"
  by (cases v) (simp_all add: download_post_def)

text \<open>
  Claim C7. A submission whose identifier is missing or malformed is to be rejected
  with a validation error before normalisation and before the cache is read, and
  without a job. The handler does so for the values its two checks catch. For the
  request body \<open>{"url": 123}\<close> it answers 500 with the message of the \<open>TypeError\<close>
  thrown by \<open>url.includes\<close>, not a validation error; for \<open>{"url": ["music.apple.com"]}\<close>
  the identifier passes validation and the \<open>TypeError\<close> is thrown by the
  normalisation itself. In both cases no job is created and the cache is untouched.
\<close>

theorem non_string_url_answered_500:
  "download_post be now uuid (JNumber 123) s = (Json500 ''url.includes is not a function'', s)
   \<and> download_post be now uuid (JArray [JString ''music.apple.com'']) s
       = (Json500 ''url.trim is not a function'', s)
   \<and> queue_stats (snd (download_post be now uuid (JNumber 123) s)) = queue_stats s"
  by (simp add: download_post_def)

theorem non_string_url_answered_500_witness:
  "download_post None 10 ''job-2'' (JNumber 123) ex_done
       = (Json500 ''url.includes is not a function'', ex_done)
   \<and> download_post None 10 ''job-2'' (JArray [JString ''music.apple.com'']) ex_done
       = (Json500 ''url.trim is not a function'', ex_done)"
  using non_string_url_answered_500 [of None 10 "''job-2''" ex_done]
  by simp

section \<open>Completion and failure of jobs\<close>

text \<open>
  Claim C3. When a job completes, the cache entry written for it expires
  \<open>CACHE_TTL_SECONDS\<close> seconds after the completion and the timer that deletes the
  job's directory fires \<open>CACHE_TTL_SECONDS * 1000\<close> milliseconds after it: the same
  instant, three days on, within what \<open>setTimeout\<close> can hold. When the write to Redis
  fails neither is armed.
\<close>

theorem expiry_and_deletion_agree:
  "redis (on_completed None now job result s) (getCacheKey (url job)) =
      Some \<lparr>payload = \<lparr>success = success result, fileUrl = fileUrl result,
                        fileName = fileName result, res_jobId = res_jobId result,
                        cachedAt = now\<rparr>,
            expires_at = now + CACHE_TTL_SECONDS * 1000\<rparr>
   \<and> timers (on_completed None now job result s) =
      timers s @ [\<lparr>fires_at = now + CACHE_TTL_SECONDS * 1000, action = DeleteFiles (jobId job)\<rparr>,
                  \<lparr>fires_at = now + 3600000, action = DeleteJobResult (jobId job)\<rparr>]
   \<and> CACHE_TTL_SECONDS * 1000 = 259200000
   \<and> redis (on_completed (Some msg) now job result s) = redis s
   \<and> timers (on_completed (Some msg) now job result s) =
      timers s @ [\<lparr>fires_at = now + 3600000, action = DeleteJobResult (jobId job)\<rparr>]"
  by (simp add: on_completed_def Let_def setTimeout_def scheduleFileDeletion_def setex_def
        timeoutDelay_def CACHE_TTL_SECONDS_def CACHE_TTL_DAYS_def)

theorem expiry_and_deletion_agree_witness:
  "redis (on_completed None 0 ex_job ex_result ex_start) (getCacheKey ex_url) =
      Some \<lparr>payload = ex_cached, expires_at = 259200000\<rparr>
   \<and> timers (on_completed None 0 ex_job ex_result ex_start) =
      [\<lparr>fires_at = 259200000, action = DeleteFiles ''job-1''\<rparr>,
       \<lparr>fires_at = 3600000, action = DeleteJobResult ''job-1''\<rparr>]"
  using expiry_and_deletion_agree [of 0 ex_job ex_result ex_start]
  by (simp add: ex_job_def ex_result_def ex_cached_def ex_start_def)

text \<open>
  Claim C4. A run whose enumeration of produced files is empty, in particular one that
  leaves no file at all, makes the job fail with the error
  \<open>No M4A file found after download\<close>. Every failed job, whether the directory could
  not be made, the producer exited with an error or ran out of time, or no file was
  found, is recorded as failed with its error, and the cache is left as it was.
\<close>

theorem failed_jobs_recorded_never_cached:
  assumes "run = MkdirFailed err \<or> run = ExecFailed err deposited \<or>
           (run = ExecOk deposited \<and> (allFiles deposited = [] \<or> findM4aFiles deposited = [])
              \<and> err = ''No M4A file found after download'')"
  shows "redis (run_job B re now run job s) = redis s
       \<and> map_of (jobResults (run_job B re now run job s)) (jobId job) = Some (Failed err)
       \<and> failed (queue (run_job B re now run job s)) = failed (queue s) @ [job]
       \<and> completed (queue (run_job B re now run job s)) = completed (queue s)"
proof -
  let ?s1 = "s\<lparr>queue := move_active job (queue s)\<rparr>"
  have f: "run = MkdirFailed err \<or> run = ExecFailed err deposited \<or>
           (run = ExecOk deposited \<and> findM4aFiles deposited = []
              \<and> err = ''No M4A file found after download'')"
    using assms no_files_no_m4a by blast
  note w = worker_failure [OF f, of B job ?s1]
  show ?thesis
    unfolding run_job_failure [OF w]
    by (simp add: on_failed_effect worker_frame move_failed_def move_active_def)
qed

theorem failed_jobs_recorded_never_cached_witness:
  "allFiles [Dir ''Artist'' []] = []
   \<and> redis (run_job None None 0 (ExecOk [Dir ''Artist'' []]) ex_job ex_start) = redis ex_start
   \<and> map_of (jobResults (run_job None None 0 (ExecOk [Dir ''Artist'' []]) ex_job ex_start)) (jobId ex_job)
       = Some (Failed ''No M4A file found after download'')
   \<and> redis (run_job None None 0 (ExecFailed ''Command failed: gamdl'' [File ''part.m4a'']) ex_job ex_start)
       = redis ex_start
   \<and> map_of (jobResults (run_job None None 0 (ExecFailed ''Command failed: gamdl'' [File ''part.m4a'']) ex_job ex_start))
        (jobId ex_job) = Some (Failed ''Command failed: gamdl'')"
proof -
  have a: "allFiles [Dir ''Artist'' []] = []" by (simp add: path_join_def)
  show ?thesis
    using a
      failed_jobs_recorded_never_cached [of "ExecOk [Dir ''Artist'' []]" "''No M4A file found after download''"
         "[Dir ''Artist'' []]" None None 0 ex_job ex_start]
      failed_jobs_recorded_never_cached [of "ExecFailed ''Command failed: gamdl'' [File ''part.m4a'']"
         "''Command failed: gamdl''" "[File ''part.m4a'']" None None 0 ex_job ex_start]
    by simp
qed

section \<open>Cache hits\<close>

text \<open>
  Claim C8. While the entry written at a job's completion is in the store, not expired,
  and the file it names exists, a submission whose key is that of the job's identifier
  is answered from the cache with the result recorded at completion: the same file
  name, file URL and job identifier, and the time of caching.
\<close>

theorem cache_hit_returns_recorded_result:
  assumes "u \<noteq> []" and "includesStr u ''music.apple.com''"
    and "getCacheKey u = getCacheKey (url job)"
    and "redis s' (getCacheKey u) = redis (on_completed None t0 job result s) (getCacheKey u)"
    and "now < t0 + CACHE_TTL_SECONDS * 1000"
    and "cacheFilesExist (fs s') (res_jobId result) (fileName result)"
  shows "map_of (jobResults (on_completed None t0 job result s)) (jobId job) = Some (Completed result)
       \<and> download_post None now uuid (JString u) s' =
           (CacheHit (res_jobId result) t0 result (''/api/status/'' @ res_jobId result), s')"
proof -
  have "redis s' (getCacheKey u) =
      Some \<lparr>payload = \<lparr>success = success result, fileUrl = fileUrl result,
                        fileName = fileName result, res_jobId = res_jobId result,
                        cachedAt = t0\<rparr>,
            expires_at = t0 + CACHE_TTL_SECONDS * 1000\<rparr>"
    using assms(3,4) on_completed_effect [of t0 job result s] by simp
  then have g: "redis_get (redis s') now (getCacheKey u) =
      Some \<lparr>success = success result, fileUrl = fileUrl result,
            fileName = fileName result, res_jobId = res_jobId result, cachedAt = t0\<rparr>"
    using assms(5) by (simp add: redis_get_def)
  show ?thesis
    using assms(6) on_completed_effect [of t0 job result s None]
    by (simp add: download_post_valid [OF assms(1,2)] g result_surj)
qed

theorem cache_hit_returns_recorded_result_witness:
  "ex_url \<noteq> [] \<and> includesStr ex_url ''music.apple.com''
   \<and> getCacheKey ex_url = getCacheKey (url ex_job)
   \<and> redis ex_done (getCacheKey ex_url) = redis (on_completed None 0 ex_job ex_result ex_start) (getCacheKey ex_url)
   \<and> (10::nat) < 0 + CACHE_TTL_SECONDS * 1000
   \<and> cacheFilesExist (fs ex_done) (res_jobId ex_result) (fileName ex_result)
   \<and> map_of (jobResults (on_completed None 0 ex_job ex_result ex_start)) (jobId ex_job) = Some (Completed ex_result)
   \<and> download_post None 10 ''job-2'' (JString ex_url) ex_done =
        (CacheHit ''job-1'' 0 ex_result ''/api/status/job-1'', ex_done)"
proof -
  have u: "ex_url \<noteq> []" "includesStr ex_url ''music.apple.com''"
    using ex_url_valid by simp_all
  have k: "getCacheKey ex_url = getCacheKey (url ex_job)"
    by (simp add: ex_job_def)
  have r: "redis ex_done (getCacheKey ex_url) =
      redis (on_completed None 0 ex_job ex_result ex_start) (getCacheKey ex_url)"
    using on_completed_effect [of 0 ex_job ex_result ex_start]
    by (simp add: ex_done_redis ex_key ex_job_def ex_cached_def ex_result_def
          CACHE_TTL_SECONDS_def CACHE_TTL_DAYS_def)
  have t: "(10::nat) < 0 + CACHE_TTL_SECONDS * 1000"
    by (simp add: CACHE_TTL_SECONDS_def CACHE_TTL_DAYS_def)
  have e: "cacheFilesExist (fs ex_done) (res_jobId ex_result) (fileName ex_result)"
    using ex_done_exist by (simp add: ex_result_def)
  have j: "res_jobId ex_result = ''job-1''"
    by (simp add: ex_result_def)
  show ?thesis
    using u k r t e cache_hit_returns_recorded_result [OF u k r t e, of "''job-2''"]
    by (simp add: j)
qed

section \<open>Queue control\<close>

text \<open>
  Claim C9. Clearing the queue removes all of the queue's jobs and empties
  \<open>jobResults\<close>, and leaves the cache entries, the files on disk and the timers as
  they were. A submission right after it is answered as it would have been before;
  where that was a cache hit, it still is one, with the old job identifier.
\<close>

theorem queue_clear_keeps_cache:
  "redis (snd (queue_clear s)) = redis s
   \<and> fs (snd (queue_clear s)) = fs s
   \<and> timers (snd (queue_clear s)) = timers s
   \<and> jobResults (snd (queue_clear s)) = []
   \<and> queue_stats (snd (queue_clear s)) = (0, 0, 0, 0, 0)
   \<and> fst (download_post be now uuid body_url (snd (queue_clear s)))
       = fst (download_post be now uuid body_url s)
   \<and> (fst (download_post be now uuid body_url s) = CacheHit j t r st \<longrightarrow>
        download_post be now uuid body_url (snd (queue_clear s))
          = (CacheHit j t r st, snd (queue_clear s)))"
proof -
  have c: "snd (queue_clear s) =
      s\<lparr>queue := \<lparr>waiting = [], active = [], completed = [], failed = []\<rparr>, jobResults := []\<rparr>"
    by (simp add: queue_clear_def queue_stats_def Let_def)
  have f: "fst (download_post be now uuid body_url (snd (queue_clear s)))
       = fst (download_post be now uuid body_url s)"
    unfolding c
    by (simp add: download_post_def Let_def enqueue_def
          split: option.splits sum.splits js_value.splits)
  have h: "download_post be now uuid body_url s' = (CacheHit j t r st, s')"
    if "fst (download_post be now uuid body_url s') = CacheHit j t r st" for s'
    using that
    by (auto simp: download_post_def Let_def enqueue_def
          split: option.splits if_splits sum.splits js_value.splits)
  show ?thesis
    using f h [of "snd (queue_clear s)"]
    by (simp add: c queue_stats_def)
qed

theorem queue_clear_keeps_cache_witness:
  "fst (download_post None 10 ''job-2'' (JString ex_url) ex_done) = CacheHit ''job-1'' 0 ex_result ''/api/status/job-1''
   \<and> download_post None 10 ''job-2'' (JString ex_url) (snd (queue_clear ex_done))
       = (CacheHit ''job-1'' 0 ex_result ''/api/status/job-1'', snd (queue_clear ex_done))
   \<and> queue_stats ex_done = (0, 0, 1, 0, 1)
   \<and> queue_stats (snd (queue_clear ex_done)) = (0, 0, 0, 0, 0)"
proof -
  have u: "ex_url \<noteq> []" "includesStr ex_url ''music.apple.com''"
    using ex_url_valid by simp_all
  have hit: "fst (download_post None 10 ''job-2'' (JString ex_url) ex_done)
      = CacheHit ''job-1'' 0 ex_result ''/api/status/job-1''"
    using ex_done_get ex_done_exist
    by (simp add: download_post_valid [OF u] ex_cached_def ex_result_def)
  have q: "queue_stats ex_done = (0, 0, 1, 0, 1)"
    by (simp add: queue_stats_def ex_done_def run_job_def ex_worker on_completed_def Let_def
          setTimeout_def scheduleFileDeletion_def ex_start_def move_active_def move_completed_def)
  show ?thesis
    using hit q
      queue_clear_keeps_cache [of ex_done None 10 "''job-2''" "JString ex_url" "''job-1''" 0
        ex_result "''/api/status/job-1''"]
    by simp
qed

section \<open>Which files make a job succeed\<close>

text \<open>
  Claim C10. The enumeration after the run is, in listing order, exactly the files
  below the job's directory whose name ends in \<open>.m4a\<close>. A run that leaves only other
  files fails with \<open>No M4A file found after download\<close> although the producer exited
  with 0. Otherwise the result, as returned and as recorded, names the first
  enumerated file, in \<open>fileName\<close> and in \<open>fileUrl\<close>, and no other.
\<close>

theorem m4a_files_decide_success:
  "findM4aFiles es = filter (\<lambda>p. endsWith p ''.m4a'') (allFiles es)
   \<and> ((\<forall>p \<in> set (allFiles es). \<not> endsWith p ''.m4a'') \<longrightarrow>
        fst (worker B (ExecOk es) job s) = Inl ''No M4A file found after download''
      \<and> map_of (jobResults (run_job B re now (ExecOk es) job s)) (jobId job)
          = Some (Failed ''No M4A file found after download''))
   \<and> (findM4aFiles es = f # rest \<longrightarrow>
        fst (worker B (ExecOk es) job s) =
          Inr \<lparr>success = True,
                fileUrl = baseUrl B @ ''/downloads/'' @ jobId job @ ''/'' @ f,
                fileName = f, res_jobId = jobId job\<rparr>
      \<and> map_of (jobResults (run_job B re now (ExecOk es) job s)) (jobId job) =
          Some (Completed \<lparr>success = True,
                fileUrl = baseUrl B @ ''/downloads/'' @ jobId job @ ''/'' @ f,
                fileName = f, res_jobId = jobId job\<rparr>))"
proof (intro conjI impI)
  show "findM4aFiles es = filter (\<lambda>p. endsWith p ''.m4a'') (allFiles es)"
    by (rule findM4aFiles_filter)
next
  assume "\<forall>p \<in> set (allFiles es). \<not> endsWith p ''.m4a''"
  then have n: "findM4aFiles es = []"
    by (simp add: findM4aFiles_filter)
  then show "fst (worker B (ExecOk es) job s) = Inl ''No M4A file found after download''"
    by (simp add: worker_def)
  have "fst (worker B (ExecOk es) job (s\<lparr>queue := move_active job (queue s)\<rparr>))
      = Inl ''No M4A file found after download''"
    using n by (simp add: worker_def)
  then show "map_of (jobResults (run_job B re now (ExecOk es) job s)) (jobId job)
          = Some (Failed ''No M4A file found after download'')"
    by (simp add: run_job_failure on_failed_effect)
next
  assume a: "findM4aFiles es = f # rest"
  then show "fst (worker B (ExecOk es) job s) =
          Inr \<lparr>success = True,
                fileUrl = baseUrl B @ ''/downloads/'' @ jobId job @ ''/'' @ f,
                fileName = f, res_jobId = jobId job\<rparr>"
    by (simp add: worker_def)
  show "map_of (jobResults (run_job B re now (ExecOk es) job s)) (jobId job) =
          Some (Completed \<lparr>success = True,
                fileUrl = baseUrl B @ ''/downloads/'' @ jobId job @ ''/'' @ f,
                fileName = f, res_jobId = jobId job\<rparr>)"
    using a by (simp add: run_job_def worker_def on_completed_effect)
qed

theorem m4a_files_decide_success_witness:
  "allFiles ex_tree = [''cover.jpg'', ''Artist/lyrics.lrc'', ''Artist/01 Song.m4a'', ''Artist/02 Song.m4a'']
   \<and> findM4aFiles ex_tree = [''Artist/01 Song.m4a'', ''Artist/02 Song.m4a'']
   \<and> fst (worker None (ExecOk ex_tree) ex_job ex_start) = Inr ex_result
   \<and> map_of (jobResults (run_job None None 0 (ExecOk ex_tree) ex_job ex_start)) ''job-1''
       = Some (Completed ex_result)
   \<and> allFiles ex_other = [''cover.jpg'', ''Artist/lyrics.lrc'', ''Artist/song.mp4'']
   \<and> \<not> endsWith ''cover.jpg'' ''.m4a''
   \<and> \<not> endsWith ''Artist/lyrics.lrc'' ''.m4a''
   \<and> \<not> endsWith ''Artist/song.mp4'' ''.m4a''
   \<and> fst (worker None (ExecOk ex_other) ex_job ex_start) = Inl ''No M4A file found after download''
   \<and> map_of (jobResults (run_job None None 0 (ExecOk ex_other) ex_job ex_start)) ''job-1''
       = Some (Failed ''No M4A file found after download'')"
proof -
  have a: "allFiles ex_tree = [''cover.jpg'', ''Artist/lyrics.lrc'', ''Artist/01 Song.m4a'', ''Artist/02 Song.m4a'']"
    by (simp add: ex_tree_def path_join_def)
  have o: "allFiles ex_other = [''cover.jpg'', ''Artist/lyrics.lrc'', ''Artist/song.mp4'']"
    by (simp add: ex_other_def path_join_def)
  have e: "\<not> endsWith ''cover.jpg'' ''.m4a''" "\<not> endsWith ''Artist/lyrics.lrc'' ''.m4a''"
    "\<not> endsWith ''Artist/song.mp4'' ''.m4a''"
    by (simp_all add: endsWith_def)
  have n: "\<forall>p \<in> set (allFiles ex_other). \<not> endsWith p ''.m4a''"
    using e by (simp add: o)
  have j: "jobId ex_job = ''job-1''"
    by (simp add: ex_job_def)
  have r: "\<lparr>success = True,
       fileUrl = baseUrl None @ ''/downloads/'' @ ''job-1'' @ ''/'' @ ''Artist/01 Song.m4a'',
       fileName = ''Artist/01 Song.m4a'', res_jobId = ''job-1''\<rparr> = ex_result"
    by (simp add: baseUrl_def ex_result_def)
  have ok: "fst (worker None (ExecOk ex_tree) ex_job ex_start) = Inr ex_result
      \<and> map_of (jobResults (run_job None None 0 (ExecOk ex_tree) ex_job ex_start)) ''job-1''
          = Some (Completed ex_result)"
    using ex_find
      m4a_files_decide_success [of ex_tree None ex_job ex_start None 0
         "''Artist/01 Song.m4a''" "[''Artist/02 Song.m4a'']"]
    unfolding j r by blast
  have bad: "fst (worker None (ExecOk ex_other) ex_job ex_start) = Inl ''No M4A file found after download''
      \<and> map_of (jobResults (run_job None None 0 (ExecOk ex_other) ex_job ex_start)) ''job-1''
          = Some (Failed ''No M4A file found after download'')"
    using n m4a_files_decide_success [of ex_other None ex_job ex_start None 0 "[]" "[]"]
    unfolding j by blast
  show ?thesis
    using a o e ok bad ex_find by simp
qed

end
